theory Spec2Isabelle
  imports Complex_Main "HOL-Library.List_Lexorder" "HOL-Library.Sublist"
begin

section \<open>Python values used by the media source\<close>

text \<open>
  A Python \<open>str\<close> is a sequence of Unicode code points, so it is modelled as a list of
  natural numbers. Equality of strings is equality of lists, and the order \<open>\<le>\<close> on
  lists (lexicographic, a proper prefix is smaller) is the order Python's \<open>sort\<close> uses
  on \<open>str\<close> keys. \<open>ascii\<close> writes a literal of the source.
\<close>

type_synonym str = "nat list"

definition ascii :: "string \<Rightarrow> str" where
  "ascii s = map of_char s"

text \<open>\<open>str.isspace\<close> of one code point: the white space table of CPython.\<close>

definition isspace :: "nat \<Rightarrow> bool" where
  "isspace c \<longleftrightarrow>
     (9 \<le> c \<and> c \<le> 13) \<or> (28 \<le> c \<and> c \<le> 32) \<or> c = 133 \<or> c = 160 \<or> c = 5760 \<or>
     (8192 \<le> c \<and> c \<le> 8202) \<or> c = 8232 \<or> c = 8233 \<or> c = 8239 \<or> c = 8287 \<or> c = 12288"

text \<open>\<open>s.strip()\<close>: leading and trailing white space removed.\<close>

definition str_strip :: "str \<Rightarrow> str" where
  "str_strip s = rev (dropWhile isspace (rev (dropWhile isspace s)))"

text \<open>
  \<open>s.partition(sep)\<close> for a non-empty separator: the part before the first occurrence
  of the separator, the separator, and the part after it; \<open>(s, '', '')\<close> when the
  separator does not occur.
\<close>

fun str_partition :: "str \<Rightarrow> str \<Rightarrow> str \<times> str \<times> str" where
  "str_partition sep [] = ([], [], [])"
| "str_partition sep (c # cs) =
     (if prefix sep (c # cs) then ([], sep, drop (length sep) (c # cs))
      else (case str_partition sep cs of (before, m, after) \<Rightarrow> (c # before, m, after)))"

text \<open>\<open>sub in s\<close> on strings: \<open>sub\<close> occurs in \<open>s\<close> as a contiguous run.\<close>

fun str_contains :: "str \<Rightarrow> str \<Rightarrow> bool" where
  "str_contains sub [] = (sub = [])"
| "str_contains sub (c # cs) = (prefix sub (c # cs) \<or> str_contains sub cs)"

text \<open>
  Truthiness of an optional string (\<open>if x:\<close>, \<open>not x\<close>, \<open>x or ''\<close>): \<open>None\<close> and the
  empty string are false.
\<close>

definition truthy :: "str option \<Rightarrow> bool" where
  "truthy x = (case x of None \<Rightarrow> False | Some s \<Rightarrow> s \<noteq> [])"

definition or_empty :: "str option \<Rightarrow> str" where
  "or_empty x = (case x of None \<Rightarrow> [] | Some s \<Rightarrow> s)"

section \<open>Stations, browse nodes and the collaborators\<close>

text \<open>
  The class \<open>Station\<close> of the \<open>radios\<close> library, which the module imports and names
  in its signatures: the fields that matter here. The coordinates are Python floats or
  \<open>None\<close>; the module only hands them to the distance function, and they are
  modelled as reals. The country code is the field \<open>country_code\<close>, and \<open>language\<close>
  and \<open>tags\<close> are lists of strings: the library splits the directory's
  comma-separated answers. The class has no attribute \<open>countrycode\<close>.
\<close>

record Station =
  uuid :: str
  name :: str
  codec :: str
  url :: str
  url_resolved :: str
  favicon :: "str option"
  latitude :: "real option"
  longitude :: "real option"
  country_code :: str
  language :: "str list"
  tags :: "str list"


datatype MediaClass = CHANNEL | DIRECTORY | MUSIC

text \<open>The content type of a node is either the constant \<open>MediaType.MUSIC\<close> or a mime type.\<close>

datatype content_type = MediaType_MUSIC | Mime str

text \<open>
  \<open>BrowseMediaSource\<close> with the keyword arguments the module passes; an argument that
  a call leaves out is \<open>None\<close>. The argument \<open>identifier\<close> is the field
  \<open>node_identifier\<close>.
\<close>

datatype BrowseMediaSource = BrowseMediaSource
  (domain: str)
  (node_identifier: "str option")
  (media_class: MediaClass)
  (media_content_type: content_type)
  (title: str)
  (can_play: bool)
  (can_expand: bool)
  (children_media_class: "MediaClass option")
  (children: "BrowseMediaSource list option")
  (thumbnail: "str option")

datatype PlayMedia = PlayMedia (play_url: str) (play_mime_type: str)

text \<open>The exception \<open>Unresolvable\<close> with its message.\<close>

datatype error = Unresolvable str

text \<open>
  Python's \<open>AttributeError\<close>, with the class of the object and the attribute that the
  object does not have.
\<close>

datatype py_error = AttributeError str str

text \<open>
  The three attribute reads of the module that the objects do not support:
  \<open>station.countrycode\<close> on a \<open>Station\<close>, and \<open>split\<close> and \<open>lower\<close> on a list.
\<close>

definition station_countrycode :: "Station \<Rightarrow> py_error + str" where
  "station_countrycode st = Inl (AttributeError (ascii ''Station'') (ascii ''countrycode''))"

definition list_split :: "str list \<Rightarrow> nat \<Rightarrow> py_error + str list" where
  "list_split xs sep = Inl (AttributeError (ascii ''list'') (ascii ''split''))"

definition list_lower :: "str list \<Rightarrow> py_error + str" where
  "list_lower xs = Inl (AttributeError (ascii ''list'') (ascii ''lower''))"

text \<open>
  A list comprehension \<open>[x for x in xs if cond(x)]\<close> whose condition may raise: the
  elements are tested in order, and the first exception ends the comprehension.
\<close>

fun filter_raising :: "('a \<Rightarrow> py_error + bool) \<Rightarrow> 'a list \<Rightarrow> py_error + 'a list" where
  "filter_raising cond [] = Inr []"
| "filter_raising cond (x # xs) =
     (case cond x of
        Inl e \<Rightarrow> Inl e
      | Inr keep \<Rightarrow>
          (case filter_raising cond xs of
             Inl e \<Rightarrow> Inl e
           | Inr kept \<Rightarrow> Inr (if keep then x # kept else kept)))"


datatype FilterBy = COUNTRY_CODE_EXACT | LANGUAGE_EXACT | TAG_EXACT

datatype Order = NAME | CLICK_COUNT

text \<open>The keyword arguments of one call of \<open>radios.stations\<close>.\<close>

record query =
  filter_by :: FilterBy
  filter_term :: str
  hide_broken :: bool
  limit :: "nat option"
  order :: "Order option"
  reverse :: "bool option"

text \<open>
  The directory service client \<open>RadioBrowser\<close>: looking one station up by its id and
  listing stations for a query. Its answers are parameters of the model; its network
  failures are outside of it.
\<close>

record RadioBrowser =
  station :: "str option \<Rightarrow> Station option"
  stations :: "query \<Rightarrow> Station list"

text \<open>
  What the module imports and does not define: the constant \<open>DOMAIN\<close>, the standard
  library's \<open>mimetypes.guess_type\<close> (the type it guesses, if any), the host's \<open>vincenty\<close>
  (a distance in kilometres, or \<open>None\<close> when the iteration does not converge), and the
  Unicode tables behind \<open>str.lower\<close> and \<open>str.title\<close>.
\<close>

record externals =
  DOMAIN :: str
  guess_type :: "str \<Rightarrow> str option"
  vincenty :: "real \<times> real \<Rightarrow> real \<times> real \<Rightarrow> bool \<Rightarrow> real option"
  str_lower :: "str \<Rightarrow> str"
  str_title :: "str \<Rightarrow> str"

text \<open>\<open>RadioMediaSource\<close>: the config entry's client and title, and the host's home.\<close>

record RadioMediaSource =
  radios :: RadioBrowser
  entry_title :: str
  hass_latitude :: real
  hass_longitude :: real

section \<open>Mime types and station nodes\<close>

text \<open>The dictionary \<open>CODEC_TO_MIMETYPE\<close> and its \<open>get\<close>.\<close>

definition CODEC_TO_MIMETYPE :: "(str \<times> str) list" where
  "CODEC_TO_MIMETYPE =
     [(ascii ''MP3'', ascii ''audio/mpeg''),
      (ascii ''AAC'', ascii ''audio/aac''),
      (ascii ''AAC+'', ascii ''audio/aac''),
      (ascii ''OGG'', ascii ''application/ogg'')]"

definition get_station_mime_type :: "externals \<Rightarrow> Station \<Rightarrow> str option" where
  "get_station_mime_type lib st =
     (let mime_type = map_of CODEC_TO_MIMETYPE (codec st)
      in if \<not> truthy mime_type then guess_type lib (url st) else mime_type)"

text \<open>The node that \<open>_async_build_stations\<close> appends for a station and its mime type.\<close>

definition station_node :: "externals \<Rightarrow> Station \<Rightarrow> str \<Rightarrow> BrowseMediaSource" where
  "station_node lib st mime_type =
     BrowseMediaSource (DOMAIN lib) (Some (uuid st)) MUSIC (Mime mime_type) (name st)
       True False None None (favicon st)"

text \<open>
  The loop of \<open>_async_build_stations\<close>, with the list \<open>items\<close> it appends to. The mime
  type is computed only for a station whose codec is not \<open>UNKNOWN\<close>.
\<close>

fun build_stations_loop ::
  "externals \<Rightarrow> BrowseMediaSource list \<Rightarrow> Station list \<Rightarrow> BrowseMediaSource list" where
  "build_stations_loop lib items [] = items"
| "build_stations_loop lib items (st # rest) =
     (if codec st = ascii ''UNKNOWN'' then build_stations_loop lib items rest
      else (case get_station_mime_type lib st of
              None \<Rightarrow> build_stations_loop lib items rest
            | Some mime_type \<Rightarrow>
                if mime_type = [] then build_stations_loop lib items rest
                else build_stations_loop lib (items @ [station_node lib st mime_type]) rest))"

definition build_stations :: "externals \<Rightarrow> Station list \<Rightarrow> BrowseMediaSource list" where
  "build_stations lib sts = build_stations_loop lib [] sts"

text \<open>
  The stations that \<open>_async_build_stations\<close> keeps: the codec is not \<open>UNKNOWN\<close> and the
  mime type is determined.
\<close>

definition rendered :: "externals \<Rightarrow> Station \<Rightarrow> bool" where
  "rendered lib st \<longleftrightarrow> codec st \<noteq> ascii ''UNKNOWN'' \<and> truthy (get_station_mime_type lib st)"

section \<open>The category builders\<close>

text \<open>\<open>not item.identifier\<close>: the request is for the root.\<close>

definition is_root :: "str option \<Rightarrow> bool" where
  "is_root ident = (\<not> truthy ident)"

definition build_by_country ::
  "externals \<Rightarrow> RadioBrowser \<Rightarrow> str option \<Rightarrow> BrowseMediaSource list" where
  "build_by_country lib rb ident =
     (if is_root ident then
        build_stations lib (stations rb
          \<lparr>filter_by = COUNTRY_CODE_EXACT, filter_term = ascii ''RU'', hide_broken = True,
           limit = None, order = Some NAME, reverse = Some False\<rparr>)
      else [])"

definition build_by_language ::
  "externals \<Rightarrow> RadioBrowser \<Rightarrow> str option \<Rightarrow> BrowseMediaSource list" where
  "build_by_language lib rb ident =
     (if is_root ident then
        build_stations lib (stations rb
          \<lparr>filter_by = LANGUAGE_EXACT, filter_term = ascii ''russian'', hide_broken = True,
           limit = None, order = Some NAME, reverse = Some False\<rparr>)
      else [])"

definition build_popular ::
  "externals \<Rightarrow> RadioBrowser \<Rightarrow> str option \<Rightarrow> BrowseMediaSource list" where
  "build_popular lib rb ident =
     (if is_root ident then
        build_stations lib (stations rb
          \<lparr>filter_by = COUNTRY_CODE_EXACT, filter_term = ascii ''RU'', hide_broken = True,
           limit = Some 250, order = Some CLICK_COUNT, reverse = Some True\<rparr>)
      else [])"

subsection \<open>Counting the tags\<close>

text \<open>
  The dictionary \<open>tag_count\<close> is a list of (tag, count) pairs in insertion order, the
  order in which Python iterates over a \<open>dict\<close>. \<open>dict_get d k v\<close> is \<open>d.get(k, v)\<close>
  and \<open>dict_set d k v\<close> is \<open>d[k] = v\<close>: a key that is present keeps its place, a new
  key goes to the end.
\<close>

fun dict_get :: "('k \<times> 'v) list \<Rightarrow> 'k \<Rightarrow> 'v \<Rightarrow> 'v" where
  "dict_get [] k dflt = dflt"
| "dict_get ((k', v') # d) k dflt = (if k' = k then v' else dict_get d k dflt)"

fun dict_set :: "('k \<times> 'v) list \<Rightarrow> 'k \<Rightarrow> 'v \<Rightarrow> ('k \<times> 'v) list" where
  "dict_set [] k v = [(k, v)]"
| "dict_set ((k', v') # d) k v =
     (if k' = k then (k', v) # d else (k', v') # dict_set d k v)"

text \<open>The inner loop, over the pieces of one station's \<open>tags\<close> field.\<close>

fun count_pieces :: "(str \<times> int) list \<Rightarrow> str list \<Rightarrow> (str \<times> int) list" where
  "count_pieces tag_count [] = tag_count"
| "count_pieces tag_count (piece # pieces) =
     (let tag = str_strip piece
      in if tag \<noteq> [] then count_pieces (dict_set tag_count tag (dict_get tag_count tag 0 + 1)) pieces
         else count_pieces tag_count pieces)"


text \<open>
  The outer loop, over the stations; 44 is the comma. \<open>station.tags\<close> is a list, true
  when it is not empty, and the loop calls \<open>split\<close> on it.
\<close>

fun count_tags :: "(str \<times> int) list \<Rightarrow> Station list \<Rightarrow> py_error + (str \<times> int) list" where
  "count_tags tag_count [] = Inr tag_count"
| "count_tags tag_count (st # rest) =
     (if tags st \<noteq> [] then
        (case list_split (tags st) 44 of
           Inl e \<Rightarrow> Inl e
         | Inr pieces \<Rightarrow> count_tags (count_pieces tag_count pieces) rest)
      else count_tags tag_count rest)"

text \<open>
  \<open>xs.sort(key=f, reverse=True)\<close>: descending keys, and elements with equal keys stay
  in their original order. \<open>xs.sort(key=f)\<close> is the stable \<open>sort_key f\<close>.
\<close>

definition sort_reverse :: "('a \<Rightarrow> 'k::linorder) \<Rightarrow> 'a list \<Rightarrow> 'a list" where
  "sort_reverse f xs = rev (sort_key f (rev xs))"

text \<open>
  The list \<open>tags\<close> that the tag index makes of the dictionary: a pair (name,
  stationcount) stands for the dictionary with these two keys.
\<close>

definition popular_tags :: "(str \<times> int) list \<Rightarrow> (str \<times> int) list" where
  "popular_tags tag_count =
     (let tags0 = tag_count;
          tags1 = sort_reverse snd tags0;
          tags2 = take 100 tags1
      in sort_key fst tags2)"

definition tag_node :: "externals \<Rightarrow> str \<times> int \<Rightarrow> BrowseMediaSource" where
  "tag_node lib tag =
     BrowseMediaSource (DOMAIN lib) (Some (ascii ''tag/'' @ fst tag)) DIRECTORY MediaType_MUSIC
       (str_title lib (fst tag)) False True None None None"

definition by_category_node :: "externals \<Rightarrow> BrowseMediaSource" where
  "by_category_node lib =
     BrowseMediaSource (DOMAIN lib) (Some (ascii ''tag'')) DIRECTORY MediaType_MUSIC
       (ascii ''By Category'') False True None None None"

text \<open>
  The condition of the post-filter of the stations of one tag:
  \<open>s.countrycode == 'RU' or 'russian' in (s.language or '').lower()\<close>. The country
  code is read first; \<open>s.language or ''\<close> is the empty string for an empty list and
  the list itself otherwise.
\<close>

definition is_russian :: "externals \<Rightarrow> Station \<Rightarrow> py_error + bool" where
  "is_russian lib s =
     (case station_countrycode s of
        Inl e \<Rightarrow> Inl e
      | Inr cc \<Rightarrow>
          if cc = ascii ''RU'' then Inr True
          else if language s = [] then Inr (str_contains (ascii ''russian'') (str_lower lib []))
          else (case list_lower (language s) of
                  Inl e \<Rightarrow> Inl e
                | Inr lowered \<Rightarrow> Inr (str_contains (ascii ''russian'') lowered)))"

definition build_by_tag ::
  "externals \<Rightarrow> RadioBrowser \<Rightarrow> str option \<Rightarrow> py_error + BrowseMediaSource list" where
  "build_by_tag lib rb ident =
     (case str_partition (ascii ''/'') (or_empty ident) of (category, _, tag) \<Rightarrow>
        if category = ascii ''tag'' \<and> tag \<noteq> [] then
          (case filter_raising (is_russian lib) (stations rb
                  \<lparr>filter_by = TAG_EXACT, filter_term = tag, hide_broken = True,
                   limit = None, order = Some NAME, reverse = Some False\<rparr>) of
             Inl e \<Rightarrow> Inl e
           | Inr russian_stations \<Rightarrow> Inr (build_stations lib russian_stations))
        else if category = ascii ''tag'' then
          (case count_tags [] (stations rb
                  \<lparr>filter_by = COUNTRY_CODE_EXACT, filter_term = ascii ''RU'',
                   hide_broken = True, limit = None, order = None, reverse = None\<rparr>) of
             Inl e \<Rightarrow> Inl e
           | Inr tag_count \<Rightarrow> Inr (map (tag_node lib) (popular_tags tag_count)))
        else if is_root ident then Inr [by_category_node lib]
        else Inr [])"

subsection \<open>Local stations\<close>

text \<open>
  The condition of the comprehension in \<open>_filter_local_stations\<close>, for one station. The
  conjunction stops at the first false part, so that the country code is read only for
  a station that has both coordinates.
\<close>

definition is_local :: "externals \<Rightarrow> real \<Rightarrow> real \<Rightarrow> Station \<Rightarrow> py_error + bool" where
  "is_local lib lat lon st =
     (case latitude st of None \<Rightarrow> Inr False | Some st_lat \<Rightarrow>
      (case longitude st of None \<Rightarrow> Inr False | Some st_lon \<Rightarrow>
         (case station_countrycode st of
            Inl e \<Rightarrow> Inl e
          | Inr cc \<Rightarrow>
              Inr (cc = ascii ''RU'' \<and>
                   (case vincenty lib (lat, lon) (st_lat, st_lon) False of
                      None \<Rightarrow> False
                    | Some dist_km \<Rightarrow> dist_km < 100)))))"

definition filter_local_stations ::
  "externals \<Rightarrow> Station list \<Rightarrow> real \<Rightarrow> real \<Rightarrow> py_error + Station list" where
  "filter_local_stations lib sts lat lon = filter_raising (is_local lib lat lon) sts"

definition build_local ::
  "externals \<Rightarrow> RadioMediaSource \<Rightarrow> RadioBrowser \<Rightarrow> str option \<Rightarrow>
     py_error + BrowseMediaSource list" where
  "build_local lib self rb ident =
     (if is_root ident then
        (let sts = stations rb
               \<lparr>filter_by = COUNTRY_CODE_EXACT, filter_term = ascii ''RU'', hide_broken = True,
                limit = None, order = Some NAME, reverse = Some False\<rparr>
         in case filter_local_stations lib sts (hass_latitude self) (hass_longitude self) of
              Inl e \<Rightarrow> Inl e
            | Inr local_stations \<Rightarrow> Inr (build_stations lib local_stations))
      else Inr [])"

section \<open>Browsing and resolving\<close>

text \<open>
  \<open>async_browse_media\<close>. The five builders run in the order of the list display, and
  an exception of one of them is the outcome of the call.
\<close>

definition browse_media ::
  "externals \<Rightarrow> RadioMediaSource \<Rightarrow> str option \<Rightarrow> py_error + BrowseMediaSource" where
  "browse_media lib self ident =
     (let rb = radios self;
          popular = build_popular lib rb ident
      in case build_by_tag lib rb ident of
           Inl e \<Rightarrow> Inl e
         | Inr by_tag \<Rightarrow>
             (let by_language = build_by_language lib rb ident
              in case build_local lib self rb ident of
                   Inl e \<Rightarrow> Inl e
                 | Inr local_nodes \<Rightarrow>
                     (let by_country = build_by_country lib rb ident
                      in Inr (BrowseMediaSource (DOMAIN lib) None CHANNEL MediaType_MUSIC
                                (entry_title self) False True (Some DIRECTORY)
                                (Some (popular @ by_tag @ by_language @ local_nodes @
                                       by_country))
                                None))))"

text \<open>
  \<open>async_resolve_media\<close>. The click that a successful resolve registers with the
  directory service is an effect: the state is the list of the ids clicked so far.
\<close>

definition resolve_media ::
  "externals \<Rightarrow> RadioMediaSource \<Rightarrow> str option \<Rightarrow> str list \<Rightarrow> (error + PlayMedia) \<times> str list" where
  "resolve_media lib self ident clicks =
     (case station (radios self) ident of
        None \<Rightarrow> (Inl (Unresolvable (ascii ''Radio station is no longer available'')), clicks)
      | Some st \<Rightarrow>
          (case get_station_mime_type lib st of
             None \<Rightarrow>
               (Inl (Unresolvable (ascii ''Could not determine stream type of radio station'')),
                clicks)
           | Some mime_type \<Rightarrow>
               if mime_type = [] then
                 (Inl (Unresolvable (ascii ''Could not determine stream type of radio station'')),
                  clicks)
               else (Inr (PlayMedia (url_resolved st) mime_type), clicks @ [uuid st])))"

section \<open>A small directory for concrete runs\<close>

text \<open>
  Values for the imported functions on the inputs of the examples: \<open>guess_type\<close> knows
  the extension \<open>.mp3\<close>, \<open>lower\<close> maps the letters A to Z, \<open>title\<close> is not needed and
  left as the identity, and \<open>vincenty\<close> gives the distance from a point to itself and
  to Saint Petersburg, and no result otherwise.
\<close>

definition example_guess_type :: "str \<Rightarrow> str option" where
  "example_guess_type u =
     (if prefix (rev (ascii ''.mp3'')) (rev u) then Some (ascii ''audio/mpeg'') else None)"

definition example_lower :: "str \<Rightarrow> str" where
  "example_lower s = map (\<lambda>c. if 65 \<le> c \<and> c \<le> 90 then c + 32 else c) s"

definition example_vincenty :: "real \<times> real \<Rightarrow> real \<times> real \<Rightarrow> bool \<Rightarrow> real option" where
  "example_vincenty p q miles =
     (if p = q then Some 0 else if q = (59.94, 30.31) then Some 634.4 else None)"

definition example_lib :: externals where
  "example_lib =
     \<lparr>DOMAIN = ascii ''radio_browser'', guess_type = example_guess_type,
      vincenty = example_vincenty, str_lower = example_lower, str_title = (\<lambda>s. s)\<rparr>"

text \<open>
  Four stations: one with the codec \<open>UNKNOWN\<close> and a URL that ends in \<open>.mp3\<close>, in
  Saint Petersburg; one with a codec outside the table and a URL without extension; one
  abroad with a codec of the table; and one in Moscow.
\<close>

definition example_s1 :: Station where
  "example_s1 =
     \<lparr>uuid = ascii ''s1'', name = ascii ''One'', codec = ascii ''UNKNOWN'',
      url = ascii ''http://x/a.mp3'', url_resolved = ascii ''http://x/a.mp3'',
      favicon = None, latitude = Some 59.94, longitude = Some 30.31,
      country_code = ascii ''RU'', language = [ascii ''russian''],
      tags = [ascii ''pop'', ascii ''news'']\<rparr>"

definition example_s2 :: Station where
  "example_s2 =
     \<lparr>uuid = ascii ''s2'', name = ascii ''Two'', codec = ascii ''FLAC'',
      url = ascii ''http://x/stream'', url_resolved = ascii ''http://x/stream'',
      favicon = None, latitude = None, longitude = None,
      country_code = ascii ''DE'', language = [ascii ''german''],
      tags = [ascii ''pop'']\<rparr>"

definition example_s3 :: Station where
  "example_s3 =
     \<lparr>uuid = ascii ''s3'', name = ascii ''Three'', codec = ascii ''MP3'',
      url = ascii ''http://x/three'', url_resolved = ascii ''http://y/three'',
      favicon = None, latitude = None, longitude = None,
      country_code = ascii ''DE'', language = [ascii ''german''],
      tags = [ascii ''pop'']\<rparr>"

definition example_s4 :: Station where
  "example_s4 =
     \<lparr>uuid = ascii ''s4'', name = ascii ''Four'', codec = ascii ''OGG'',
      url = ascii ''http://x/four'', url_resolved = ascii ''http://y/four'',
      favicon = Some (ascii ''http://x/four.png''), latitude = Some 55.75, longitude = Some 37.62,
      country_code = ascii ''RU'', language = [ascii ''russian''],
      tags = [ascii ''news'', ascii ''pop'']\<rparr>"

text \<open>
  The directory: the four stations by their ids; all of them carry the tag \<open>pop\<close>,
  and the first and the last are in the country \<open>RU\<close> and have the language
  \<open>russian\<close>.
\<close>

definition example_radios :: RadioBrowser where
  "example_radios =
     \<lparr>station = (\<lambda>i. if i = Some (ascii ''s1'') then Some example_s1
                     else if i = Some (ascii ''s2'') then Some example_s2
                     else if i = Some (ascii ''s3'') then Some example_s3
                     else if i = Some (ascii ''s4'') then Some example_s4
                     else None),
      stations = (\<lambda>q. if filter_by q = TAG_EXACT \<and> filter_term q = ascii ''pop''
                       then [example_s1, example_s2, example_s3, example_s4]
                     else if filter_by q = COUNTRY_CODE_EXACT \<and> filter_term q = ascii ''RU''
                       then [example_s1, example_s4]
                     else if filter_by q = LANGUAGE_EXACT \<and> filter_term q = ascii ''russian''
                       then [example_s1, example_s4]
                     else [])\<rparr>"

definition example_source :: RadioMediaSource where
  "example_source =
     \<lparr>radios = example_radios, entry_title = ascii ''Radio Browser'',
      hass_latitude = 55.75, hass_longitude = 37.62\<rparr>"

lemmas example_defs =
  example_lib_def example_guess_type_def example_lower_def example_vincenty_def
  example_s1_def example_s2_def example_s3_def example_s4_def
  example_radios_def example_source_def

section \<open>Strings and dictionaries\<close>

lemma str_contains_sublist: "str_contains sub s \<longleftrightarrow> sublist sub s"
  by (induction s) (auto simp: sublist_Cons_right)

lemma partition_tag_name:
  "str_partition (ascii ''/'') (ascii ''tag/'' @ tag) = (ascii ''tag'', ascii ''/'', tag)"
  by (simp add: ascii_def)

lemma partition_tag:
  "str_partition (ascii ''/'') (ascii ''tag'') = (ascii ''tag'', [], [])"
  by (simp add: ascii_def)

lemma dict_get_dict_set:
  "dict_get (dict_set d k v) k' dflt = (if k' = k then v else dict_get d k' dflt)"
  by (induction d) auto

text \<open>Assigning to a key keeps the insertion order of the keys.\<close>

lemma map_fst_dict_set:
  "map fst (dict_set d k v) = (if k \<in> set (map fst d) then map fst d else map fst d @ [k])"
  by (induction d) (auto simp: rev_image_eqI)

lemma keys_dict_set: "fst ` set (dict_set d k v) = insert k (fst ` set d)"
proof -
  have "set (map fst (dict_set d k v)) = insert k (set (map fst d))"
    unfolding map_fst_dict_set by auto
  then show ?thesis by simp
qed

lemma distinct_dict_set: "distinct (map fst d) \<Longrightarrow> distinct (map fst (dict_set d k v))"
  by (simp add: map_fst_dict_set)

section \<open>The mime type and the station nodes\<close>

text \<open>
  Claim C6: for a station whose codec is a key of the table (MP3, AAC, AAC+, OGG) the
  mime type is the table's value, whatever the URL and whatever \<open>guess_type\<close> would
  answer; the guess from the URL is the result only when the codec is not in the table.
\<close>

theorem mime_type_from_codec_table:
  "get_station_mime_type lib st =
     (if codec st = ascii ''MP3'' then Some (ascii ''audio/mpeg'')
      else if codec st = ascii ''AAC'' then Some (ascii ''audio/aac'')
      else if codec st = ascii ''AAC+'' then Some (ascii ''audio/aac'')
      else if codec st = ascii ''OGG'' then Some (ascii ''application/ogg'')
      else guess_type lib (url st))"
  by (simp add: get_station_mime_type_def CODEC_TO_MIMETYPE_def truthy_def ascii_def)

text \<open>The loop appends, in the order of the input, the nodes of the stations it keeps.\<close>

lemma build_stations_loop_eq:
  "build_stations_loop lib items sts =
     items @ map (\<lambda>st. station_node lib st (the (get_station_mime_type lib st)))
               (filter (rendered lib) sts)"
proof (induction sts arbitrary: items)
  case Nil
  show ?case by simp
next
  case (Cons st rest)
  show ?case
  proof (cases "rendered lib st")
    case True
    then obtain m where m: "get_station_mime_type lib st = Some m" "m \<noteq> []"
      by (auto simp: rendered_def truthy_def split: option.splits)
    from True have "codec st \<noteq> ascii ''UNKNOWN''" by (simp add: rendered_def)
    with m True show ?thesis by (simp add: Cons.IH)
  next
    case False
    then show ?thesis
      by (auto simp: Cons.IH rendered_def truthy_def split: option.splits)
  qed
qed

lemma build_stations_eq:
  "build_stations lib sts =
     map (\<lambda>st. station_node lib st (the (get_station_mime_type lib st)))
       (filter (rendered lib) sts)"
  by (simp add: build_stations_def build_stations_loop_eq)

lemma build_stations_leaves:
  "list_all (\<lambda>node. can_play node \<and> \<not> can_expand node) (build_stations lib sts)"
  by (simp add: build_stations_eq station_node_def list_all_iff)

text \<open>
  Claim C10: the station-to-node mapper returns one node for each station it keeps
  (codec not \<open>UNKNOWN\<close>, mime type determined), in the order of the input; the node's
  identifier is the station's uuid, its title the station's name, its thumbnail the
  station's favicon, and it can be played and cannot be expanded.
\<close>

theorem station_nodes_in_order:
  "build_stations lib sts =
     map (\<lambda>st. BrowseMediaSource (DOMAIN lib) (Some (uuid st)) MUSIC
                 (Mime (the (get_station_mime_type lib st))) (name st) True False None None
                 (favicon st))
       (filter (\<lambda>st. codec st \<noteq> ascii ''UNKNOWN'' \<and> truthy (get_station_mime_type lib st)) sts)"
proof -
  have "rendered lib = (\<lambda>st. codec st \<noteq> ascii ''UNKNOWN'' \<and> truthy (get_station_mime_type lib st))"
    by (rule ext) (simp add: rendered_def)
  then show ?thesis
    by (simp add: build_stations_eq station_node_def)
qed

text \<open>
  Claim C7: a station with the codec \<open>UNKNOWN\<close> contributes no node: the rendered list
  is the one of the input without that station, also when its URL has a mime type.
\<close>

theorem unknown_codec_no_node:
  "codec st = ascii ''UNKNOWN'' \<Longrightarrow>
     build_stations lib (before @ st # after) = build_stations lib (before @ after)"
  by (simp add: build_stations_eq rendered_def)

theorem unknown_codec_no_node_witness:
  "codec example_s1 = ascii ''UNKNOWN'' \<and>
   guess_type example_lib (url example_s1) = Some (ascii ''audio/mpeg'') \<and>
   build_stations example_lib [example_s3, example_s1, example_s4] =
     build_stations example_lib [example_s3, example_s4]"
proof -
  have unknown: "codec example_s1 = ascii ''UNKNOWN''"
    by (simp add: example_s1_def)
  have guess: "guess_type example_lib (url example_s1) = Some (ascii ''audio/mpeg'')"
    by (simp add: example_defs ascii_def)
  show ?thesis
    using unknown guess
      unknown_codec_no_node [OF unknown, of example_lib "[example_s3]" "[example_s4]"]
    by simp
qed

section \<open>The tag index\<close>

text \<open>
  The inner loop counts: after it, the count of a tag has grown by the number of the
  pieces that are this tag once trimmed, and no key stands twice.
\<close>

lemma dict_get_count_pieces:
  "dict_get (count_pieces d ps) T 0 =
     dict_get d T 0 + int (count_list (filter (\<lambda>p. p \<noteq> []) (map str_strip ps)) T)"
  by (induction ps arbitrary: d) (auto simp: Let_def dict_get_dict_set)

lemma keys_count_pieces:
  "fst ` set (count_pieces d ps) =
     fst ` set d \<union> set (filter (\<lambda>p. p \<noteq> []) (map str_strip ps))"
  by (induction ps arbitrary: d) (auto simp: Let_def keys_dict_set)

lemma distinct_count_pieces:
  "distinct (map fst d) \<Longrightarrow> distinct (map fst (count_pieces d ps))"
  by (induction ps arbitrary: d) (auto simp: Let_def distinct_dict_set)

lemma count_pieces_example:
  "count_pieces [] [ascii ''Jazz'', ascii '' Rock'', [], ascii ''Jazz ''] =
     [(ascii ''Jazz'', 2), (ascii ''Rock'', 1)]"
  by (simp add: str_strip_def isspace_def ascii_def)

text \<open>The list made of a dictionary has at most 100 rows and is sorted by name.\<close>

lemma length_popular_tags: "length (popular_tags tag_count) \<le> 100"
  by (simp add: popular_tags_def Let_def)

lemma sorted_popular_tags: "sorted (map fst (popular_tags tag_count))"
  by (simp add: popular_tags_def Let_def sorted_sort_key)

text \<open>
  The outer loop never reaches the inner one: it returns the dictionary unchanged when
  every station has an empty list of tags, and raises at the first station that has
  tags.
\<close>

lemma count_tags_raises:
  "count_tags tag_count sts =
     (if \<forall>st \<in> set sts. tags st = [] then Inr tag_count
      else Inl (AttributeError (ascii ''list'') (ascii ''split'')))"
  by (induction sts arbitrary: tag_count) (auto simp: list_split_def)

lemma build_by_tag_index:
  "build_by_tag lib rb (Some (ascii ''tag'')) =
     (if \<forall>st \<in> set (stations rb
            \<lparr>filter_by = COUNTRY_CODE_EXACT, filter_term = ascii ''RU'', hide_broken = True,
             limit = None, order = None, reverse = None\<rparr>). tags st = []
      then Inr []
      else Inl (AttributeError (ascii ''list'') (ascii ''split'')))"
  by (simp add: build_by_tag_def or_empty_def partition_tag count_tags_raises popular_tags_def
      sort_reverse_def)

text \<open>
  Claim C2 says that the count of a tag is the number of its occurrences in the tags
  of the stations. The code computes no count for a station that has tags: its tags are
  a list, and the call of \<open>split\<close> on the list raises \<open>AttributeError\<close>. Here for one
  station with the tags \<open>news\<close> and \<open>pop\<close>.
\<close>

theorem tag_count_attribute_error:
  "tags example_s4 = [ascii ''news'', ascii ''pop''] \<and>
   count_tags [] [example_s4] = Inl (AttributeError (ascii ''list'') (ascii ''split''))"
  by (simp add: example_s4_def list_split_def)

text \<open>
  Claim C1 says that the tag index returns at most 100 nodes, sorted by tag name. For
  the identifier \<open>tag\<close> and a directory whose stations have tags the builder returns
  no nodes: it ends with the \<open>AttributeError\<close> of the count.
\<close>

theorem tag_index_attribute_error:
  "stations example_radios
     \<lparr>filter_by = COUNTRY_CODE_EXACT, filter_term = ascii ''RU'', hide_broken = True,
      limit = None, order = None, reverse = None\<rparr> = [example_s1, example_s4] \<and>
   build_by_tag example_lib example_radios (Some (ascii ''tag'')) =
     Inl (AttributeError (ascii ''list'') (ascii ''split''))"
proof -
  have listed: "stations example_radios
     \<lparr>filter_by = COUNTRY_CODE_EXACT, filter_term = ascii ''RU'', hide_broken = True,
      limit = None, order = None, reverse = None\<rparr> = [example_s1, example_s4]"
    by (simp add: example_radios_def)
  have "tags example_s1 \<noteq> []"
    by (simp add: example_s1_def)
  with listed show ?thesis
    by (simp add: build_by_tag_index)
qed

section \<open>The stations of one tag\<close>

lemma is_russian_raises:
  "is_russian lib s = Inl (AttributeError (ascii ''Station'') (ascii ''countrycode''))"
  by (simp add: is_russian_def station_countrycode_def)

lemma filter_raising_is_russian:
  "filter_raising (is_russian lib) sts =
     (if sts = [] then Inr []
      else Inl (AttributeError (ascii ''Station'') (ascii ''countrycode'')))"
  by (cases sts) (simp_all add: is_russian_raises)

text \<open>
  For \<open>tag/name\<close> the builder asks for the stations of the tag; it returns the empty
  list when there are none, and raises at the first station otherwise.
\<close>

lemma build_by_tag_name:
  "tag \<noteq> [] \<Longrightarrow>
     build_by_tag lib rb (Some (ascii ''tag/'' @ tag)) =
       (if stations rb \<lparr>filter_by = TAG_EXACT, filter_term = tag, hide_broken = True,
                        limit = None, order = Some NAME, reverse = Some False\<rparr> = []
        then Inr []
        else Inl (AttributeError (ascii ''Station'') (ascii ''countrycode'')))"
  by (simp add: build_by_tag_def or_empty_def partition_tag_name filter_raising_is_russian
      build_stations_def)

text \<open>
  Claim C9 says that for \<open>tag/name\<close> the builder keeps the stations of the tag that
  are in the country or of the language, and renders them. For the tag \<open>pop\<close> of the
  example directory it renders nothing: the filter reads \<open>countrycode\<close> of the first
  station, which the class does not have, and the builder ends with \<open>AttributeError\<close>.
\<close>

theorem by_tag_attribute_error:
  "stations example_radios
     \<lparr>filter_by = TAG_EXACT, filter_term = ascii ''pop'', hide_broken = True,
      limit = None, order = Some NAME, reverse = Some False\<rparr> =
     [example_s1, example_s2, example_s3, example_s4] \<and>
   build_by_tag example_lib example_radios (Some (ascii ''tag/'' @ ascii ''pop'')) =
     Inl (AttributeError (ascii ''Station'') (ascii ''countrycode''))"
proof -
  have ne: "ascii ''pop'' \<noteq> []" by (simp add: ascii_def)
  have listed: "stations example_radios
     \<lparr>filter_by = TAG_EXACT, filter_term = ascii ''pop'', hide_broken = True,
      limit = None, order = Some NAME, reverse = Some False\<rparr> =
     [example_s1, example_s2, example_s3, example_s4]"
    by (simp add: example_radios_def)
  show ?thesis
    by (simp add: build_by_tag_name [OF ne] listed)
qed

section \<open>Local stations\<close>

text \<open>
  The proximity filter returns only the empty list: a station without both coordinates
  is dropped, and the first station with both coordinates raises.
\<close>

lemma filter_local_stations_raises:
  "filter_local_stations lib sts lat lon =
     (if \<exists>st \<in> set sts. latitude st \<noteq> None \<and> longitude st \<noteq> None
      then Inl (AttributeError (ascii ''Station'') (ascii ''countrycode''))
      else Inr [])"
  unfolding filter_local_stations_def
  by (induction sts)
    (auto simp: is_local_def station_countrycode_def split: option.splits sum.splits)

text \<open>
  Claim C3 says that the proximity filter keeps the stations with both coordinates, in
  the region and nearer than 100 km. The station in Moscow has both coordinates, the
  country code \<open>RU\<close> and the distance 0 from the origin, and the filter does not keep
  it: the read of \<open>countrycode\<close> raises \<open>AttributeError\<close>.
\<close>

theorem local_filter_attribute_error:
  "latitude example_s4 = Some 55.75 \<and> longitude example_s4 = Some 37.62 \<and>
   country_code example_s4 = ascii ''RU'' \<and>
   vincenty example_lib (55.75, 37.62) (55.75, 37.62) False = Some 0 \<and>
   filter_local_stations example_lib [example_s4] 55.75 37.62 =
     Inl (AttributeError (ascii ''Station'') (ascii ''countrycode''))"
  by (simp add: filter_local_stations_raises example_s4_def example_lib_def example_vincenty_def)

section \<open>Browsing\<close>

text \<open>
  For the root the result is decided by the proximity filter: when it returns, the
  node is the container with the children of the five builders in their order, the
  by-tag builder giving the one entry node.
\<close>

lemma browse_media_root:
  "is_root ident \<Longrightarrow>
     browse_media lib self ident =
       (case filter_local_stations lib (stations (radios self)
                \<lparr>filter_by = COUNTRY_CODE_EXACT, filter_term = ascii ''RU'',
                 hide_broken = True, limit = None, order = Some NAME,
                 reverse = Some False\<rparr>) (hass_latitude self) (hass_longitude self) of
          Inl e \<Rightarrow> Inl e
        | Inr local_stations \<Rightarrow>
            Inr (BrowseMediaSource (DOMAIN lib) None CHANNEL MediaType_MUSIC (entry_title self)
                   False True (Some DIRECTORY)
                   (Some (build_stations lib (stations (radios self)
                            \<lparr>filter_by = COUNTRY_CODE_EXACT, filter_term = ascii ''RU'',
                             hide_broken = True, limit = Some 250, order = Some CLICK_COUNT,
                             reverse = Some True\<rparr>) @
                          [by_category_node lib] @
                          build_stations lib (stations (radios self)
                            \<lparr>filter_by = LANGUAGE_EXACT, filter_term = ascii ''russian'',
                             hide_broken = True, limit = None, order = Some NAME,
                             reverse = Some False\<rparr>) @
                          build_stations lib local_stations @
                          build_stations lib (stations (radios self)
                            \<lparr>filter_by = COUNTRY_CODE_EXACT, filter_term = ascii ''RU'',
                             hide_broken = True, limit = None, order = Some NAME,
                             reverse = Some False\<rparr>)))
                   None))"
proof -
  assume root: "is_root ident"
  then have "or_empty ident = []"
    by (auto simp: is_root_def truthy_def or_empty_def split: option.splits)
  then have tag: "build_by_tag lib (radios self) ident = Inr [by_category_node lib]"
    using root by (simp add: build_by_tag_def ascii_def)
  show ?thesis
    using root
    by (simp add: browse_media_def Let_def tag build_popular_def build_by_language_def
        build_local_def build_by_country_def split: sum.splits)
qed

text \<open>
  Claim C8 says that the root browse call returns the container with the children of
  the five builders. On the example directory the stations of the country have
  coordinates, the local builder raises \<open>AttributeError\<close>, and the call returns no
  node.
\<close>

theorem browse_root_attribute_error:
  "is_root None \<and>
   stations (radios example_source)
     \<lparr>filter_by = COUNTRY_CODE_EXACT, filter_term = ascii ''RU'', hide_broken = True,
      limit = None, order = Some NAME, reverse = Some False\<rparr> = [example_s1, example_s4] \<and>
   browse_media example_lib example_source None =
     Inl (AttributeError (ascii ''Station'') (ascii ''countrycode''))"
proof -
  have root: "is_root None" by (simp add: is_root_def truthy_def)
  have listed: "stations (radios example_source)
     \<lparr>filter_by = COUNTRY_CODE_EXACT, filter_term = ascii ''RU'', hide_broken = True,
      limit = None, order = Some NAME, reverse = Some False\<rparr> = [example_s1, example_s4]"
    by (simp add: example_source_def example_radios_def)
  have coords: "latitude example_s1 \<noteq> None \<and> longitude example_s1 \<noteq> None"
    by (simp add: example_s1_def)
  have "filter_local_stations example_lib [example_s1, example_s4]
      (hass_latitude example_source) (hass_longitude example_source) =
      Inl (AttributeError (ascii ''Station'') (ascii ''countrycode''))"
    using coords by (simp add: filter_local_stations_raises)
  with root listed show ?thesis
    by (simp add: browse_media_root [OF root])
qed

section \<open>Resolving\<close>

text \<open>
  Claim C4: resolve fails with \<open>Radio station is no longer available\<close> exactly when the
  directory has no station for the id; for a station whose codec is not in the table and
  whose URL gives no mime type it fails with \<open>Could not determine stream type of radio
  station\<close>; and when it succeeds, the result is the station's resolved URL with the
  mime type determined for the station.
\<close>

theorem resolve_failure_kinds:
  "(fst (resolve_media lib self ident clicks) =
      Inl (Unresolvable (ascii ''Radio station is no longer available'')) \<longleftrightarrow>
    station (radios self) ident = None) \<and>
   (\<forall>st. station (radios self) ident = Some st \<and>
         map_of CODEC_TO_MIMETYPE (codec st) = None \<and> guess_type lib (url st) = None \<longrightarrow>
      fst (resolve_media lib self ident clicks) =
        Inl (Unresolvable (ascii ''Could not determine stream type of radio station''))) \<and>
   (\<forall>media. fst (resolve_media lib self ident clicks) = Inr media \<longrightarrow>
      (\<exists>st. station (radios self) ident = Some st \<and>
            play_url media = url_resolved st \<and>
            get_station_mime_type lib st = Some (play_mime_type media)))"
proof (intro conjI allI impI)
  show "(fst (resolve_media lib self ident clicks) =
      Inl (Unresolvable (ascii ''Radio station is no longer available''))) =
    (station (radios self) ident = None)"
    by (auto simp: resolve_media_def ascii_def split: option.splits)
next
  fix st
  assume "station (radios self) ident = Some st \<and>
         map_of CODEC_TO_MIMETYPE (codec st) = None \<and> guess_type lib (url st) = None"
  then show "fst (resolve_media lib self ident clicks) =
        Inl (Unresolvable (ascii ''Could not determine stream type of radio station''))"
    by (simp add: resolve_media_def get_station_mime_type_def truthy_def)
next
  fix media
  assume "fst (resolve_media lib self ident clicks) = Inr media"
  then show "\<exists>st. station (radios self) ident = Some st \<and>
            play_url media = url_resolved st \<and>
            get_station_mime_type lib st = Some (play_mime_type media)"
    by (auto simp: resolve_media_def split: option.splits if_splits)
qed

text \<open>
  On the example directory: no station has the id \<open>s0\<close>; the station \<open>s2\<close> has the
  codec FLAC and a URL without extension; the station \<open>s3\<close> resolves.
\<close>

theorem resolve_failure_kinds_witness:
  "fst (resolve_media example_lib example_source (Some (ascii ''s0'')) []) =
     Inl (Unresolvable (ascii ''Radio station is no longer available'')) \<and>
   fst (resolve_media example_lib example_source (Some (ascii ''s2'')) []) =
     Inl (Unresolvable (ascii ''Could not determine stream type of radio station'')) \<and>
   fst (resolve_media example_lib example_source (Some (ascii ''s3'')) []) =
     Inr (PlayMedia (ascii ''http://y/three'') (ascii ''audio/mpeg'')) \<and>
   station (radios example_source) (Some (ascii ''s3'')) = Some example_s3 \<and>
   url_resolved example_s3 = ascii ''http://y/three'' \<and>
   get_station_mime_type example_lib example_s3 = Some (ascii ''audio/mpeg'')"
proof -
  have absent: "station (radios example_source) (Some (ascii ''s0'')) = None"
    by (simp add: example_source_def example_radios_def ascii_def)
  have present: "station (radios example_source) (Some (ascii ''s2'')) = Some example_s2 \<and>
      map_of CODEC_TO_MIMETYPE (codec example_s2) = None \<and>
      guess_type example_lib (url example_s2) = None"
    by (simp add: example_defs CODEC_TO_MIMETYPE_def ascii_def)
  have third: "station (radios example_source) (Some (ascii ''s3'')) = Some example_s3"
    by (simp add: example_source_def example_radios_def ascii_def)
  have played: "fst (resolve_media example_lib example_source (Some (ascii ''s3'')) []) =
      Inr (PlayMedia (ascii ''http://y/three'') (ascii ''audio/mpeg''))"
    by (simp add: resolve_media_def get_station_mime_type_def CODEC_TO_MIMETYPE_def
        truthy_def example_defs ascii_def)
  from resolve_failure_kinds [of example_lib example_source "Some (ascii ''s3'')" "[]"] played
  obtain st where st: "station (radios example_source) (Some (ascii ''s3'')) = Some st"
    "play_url (PlayMedia (ascii ''http://y/three'') (ascii ''audio/mpeg'')) = url_resolved st"
    "get_station_mime_type example_lib st =
       Some (play_mime_type (PlayMedia (ascii ''http://y/three'') (ascii ''audio/mpeg'')))"
    by blast
  from st third have "url_resolved example_s3 = ascii ''http://y/three'' \<and>
      get_station_mime_type example_lib example_s3 = Some (ascii ''audio/mpeg'')"
    by simp
  with absent present third played
    resolve_failure_kinds [of example_lib example_source "Some (ascii ''s0'')" "[]"]
    resolve_failure_kinds [of example_lib example_source "Some (ascii ''s2'')" "[]"]
  show ?thesis by blast
qed

text \<open>
  Claim C5 says that resolve fails for every station of the directory whose codec is
  \<open>UNKNOWN\<close>. It does not: resolve asks only for the mime type, and the test for the
  codec \<open>UNKNOWN\<close> is made where station lists are rendered. The first example station
  has the codec \<open>UNKNOWN\<close> and a URL ending in \<open>.mp3\<close>, and it resolves.
\<close>

theorem resolve_unknown_codec_counterexample:
  "station (radios example_source) (Some (ascii ''s1'')) = Some example_s1 \<and>
   codec example_s1 = ascii ''UNKNOWN'' \<and>
   fst (resolve_media example_lib example_source (Some (ascii ''s1'')) []) =
     Inr (PlayMedia (ascii ''http://x/a.mp3'') (ascii ''audio/mpeg'')) \<and>
   fst (resolve_media example_lib example_source (Some (ascii ''s1'')) []) \<noteq>
     Inl (Unresolvable (ascii ''Could not determine stream type of radio station''))"
  by (simp add: example_defs resolve_media_def get_station_mime_type_def CODEC_TO_MIMETYPE_def
      truthy_def ascii_def)

text \<open>
  Claim C5, amended: for a station of the directory whose codec is \<open>UNKNOWN\<close>, resolve
  fails with \<open>Could not determine stream type of radio station\<close> exactly when no mime
  type is guessed from the station's URL; when one is guessed, resolve returns the
  resolved URL with the guessed type.
\<close>

theorem resolve_unknown_codec_by_url:
  "station (radios self) ident = Some st \<Longrightarrow> codec st = ascii ''UNKNOWN'' \<Longrightarrow>
     fst (resolve_media lib self ident clicks) =
       (if truthy (guess_type lib (url st))
        then Inr (PlayMedia (url_resolved st) (the (guess_type lib (url st))))
        else Inl (Unresolvable (ascii ''Could not determine stream type of radio station'')))"
  by (auto simp: resolve_media_def get_station_mime_type_def CODEC_TO_MIMETYPE_def
      truthy_def ascii_def split: option.splits)

theorem resolve_unknown_codec_by_url_witness:
  "station (radios example_source) (Some (ascii ''s1'')) = Some example_s1 \<and>
   codec example_s1 = ascii ''UNKNOWN'' \<and>
   fst (resolve_media example_lib example_source (Some (ascii ''s1'')) [ascii ''s3'']) =
     Inr (PlayMedia (ascii ''http://x/a.mp3'') (ascii ''audio/mpeg''))"
proof -
  have st: "station (radios example_source) (Some (ascii ''s1'')) = Some example_s1"
    by (simp add: example_source_def example_radios_def)
  have unknown: "codec example_s1 = ascii ''UNKNOWN''"
    by (simp add: example_s1_def)
  have guess: "guess_type example_lib (url example_s1) = Some (ascii ''audio/mpeg'')"
    by (simp add: example_defs ascii_def)
  have resolved: "url_resolved example_s1 = ascii ''http://x/a.mp3''"
    by (simp add: example_s1_def)
  show ?thesis
    using st unknown resolve_unknown_codec_by_url [OF st unknown, of example_lib "[ascii ''s3'']"]
    by (simp add: guess resolved truthy_def ascii_def)
qed

text \<open>A successful resolve registers one click for the station; a failed one registers none.\<close>

lemma resolve_media_clicks:
  "snd (resolve_media lib self ident clicks) =
     (case fst (resolve_media lib self ident clicks) of
        Inl e \<Rightarrow> clicks
      | Inr media \<Rightarrow> clicks @ [uuid (the (station (radios self) ident))])"
  by (auto simp: resolve_media_def split: option.splits)

end
